theory Spec2Isabelle
  imports Complex_Main
begin

section \<open>Trades\<close>

text \<open>
  The \<open>Trade\<close> interface of \<open>lib/types.ts\<close>, restricted to the fields the analytics read.
  The field \<open>time\<close> holds the value of \<open>new Date(t.time).getTime()\<close>, the close time in
  milliseconds since the epoch. The fields of a trade and the sums of profits that
  TradingReport keeps are reals; where the code divides, multiplies or raises to a power,
  the numbers are those of section \<open>JavaScript numbers\<close>, with \<open>Infinity\<close> and \<open>NaN\<close>.
\<close>

record Trade =
  time :: int
  symbol :: string
  volume :: real
  net_profit :: real

text \<open>\<open>trades.slice().sort((a, b) => new Date(a.time).getTime() - new Date(b.time).getTime())\<close>:
  a stable sort by close time that leaves the argument untouched.\<close>

definition sortByTime :: "Trade list \<Rightarrow> Trade list" where
  "sortByTime trades = sort_key time trades"

section \<open>TradingReport: consecutive wins and losses\<close>

text \<open>The mutable variables of the streak pass. \<open>lastWasWin\<close> is \<open>boolean | null\<close>.\<close>

record streak_state =
  currentStreak :: nat
  maxWinStreak :: nat
  maxLossStreak :: nat
  currentStreakProfit :: real
  maxConsecutiveProfit :: real
  maxConsecutiveLoss :: real
  lastWasWin :: "bool option"

definition streak_init :: streak_state where
  "streak_init = \<lparr> currentStreak = 0, maxWinStreak = 0, maxLossStreak = 0,
     currentStreakProfit = 0, maxConsecutiveProfit = 0, maxConsecutiveLoss = 0,
     lastWasWin = None \<rparr>"

definition isWin :: "Trade \<Rightarrow> bool" where
  "isWin t = (net_profit t > 0)"

text \<open>The body of the \<open>forEach\<close> callback. In the \<open>else\<close> branch \<open>lastWasWin\<close> is not
  \<open>null\<close>, so its truthiness is its value.\<close>

definition streak_step :: "Trade \<Rightarrow> streak_state \<Rightarrow> streak_state" where
  "streak_step t s =
     (case lastWasWin s of
        None \<Rightarrow>
          s\<lparr> currentStreak := currentStreak s + 1,
             currentStreakProfit := currentStreakProfit s + net_profit t,
             lastWasWin := Some (isWin t) \<rparr>
      | Some l \<Rightarrow>
          if isWin t = l then
            s\<lparr> currentStreak := currentStreak s + 1,
               currentStreakProfit := currentStreakProfit s + net_profit t,
               lastWasWin := Some (isWin t) \<rparr>
          else
            s\<lparr> maxWinStreak :=
                 (if l \<and> currentStreak s > maxWinStreak s then currentStreak s
                  else maxWinStreak s),
               maxLossStreak :=
                 (if \<not> l \<and> currentStreak s > maxLossStreak s then currentStreak s
                  else maxLossStreak s),
               maxConsecutiveProfit :=
                 (if l \<and> currentStreakProfit s > maxConsecutiveProfit s
                  then currentStreakProfit s else maxConsecutiveProfit s),
               maxConsecutiveLoss :=
                 (if \<not> l \<and> currentStreakProfit s < maxConsecutiveLoss s
                  then currentStreakProfit s else maxConsecutiveLoss s),
               currentStreak := 1,
               currentStreakProfit := net_profit t,
               lastWasWin := Some (isWin t) \<rparr>)"

text \<open>The two statements after the loop. \<open>null\<close> is falsy: \<open>lastWasWin && \<dots>\<close> is skipped
  and \<open>!lastWasWin\<close> holds when no trade was seen.\<close>

definition streak_flush :: "streak_state \<Rightarrow> streak_state" where
  "streak_flush s =
     (let truthy = (lastWasWin s = Some True) in
      s\<lparr> maxWinStreak :=
           (if truthy \<and> currentStreak s > maxWinStreak s then currentStreak s
            else maxWinStreak s),
         maxLossStreak :=
           (if \<not> truthy \<and> currentStreak s > maxLossStreak s then currentStreak s
            else maxLossStreak s) \<rparr>)"

text \<open>The streak part of \<open>metrics\<close>: the early return for an empty list gives zeros;
  \<open>consecutiveWins\<close> is \<open>maxWinStreak\<close> and \<open>consecutiveLosses\<close> is \<open>maxLossStreak\<close>.\<close>

definition streaks :: "Trade list \<Rightarrow> streak_state" where
  "streaks trades =
     (if trades = [] then streak_init
      else streak_flush (fold streak_step (sortByTime trades) streak_init))"

definition consecutiveWins :: "Trade list \<Rightarrow> nat" where
  "consecutiveWins trades = maxWinStreak (streaks trades)"

definition consecutiveLosses :: "Trade list \<Rightarrow> nat" where
  "consecutiveLosses trades = maxLossStreak (streaks trades)"

text \<open>The longest block of consecutive entries equal to \<open>b\<close>: the largest length, over all
  positions, of the block of \<open>b\<close>s that starts there.\<close>

fun max_run :: "bool \<Rightarrow> bool list \<Rightarrow> nat" where
  "max_run b [] = 0"
| "max_run b (x # xs) = max (length (takeWhile (\<lambda>y. y = b) (x # xs))) (max_run b xs)"

definition mkTrade :: "int \<Rightarrow> real \<Rightarrow> Trade" where
  "mkTrade tm p = \<lparr> time = tm, symbol = ''EURUSD'', volume = 1, net_profit = p \<rparr>"

definition scenarioD :: "Trade list" where
  "scenarioD = [mkTrade 2 (-20), mkTrade 1 (-10), mkTrade 3 (-30),
                mkTrade 4 15, mkTrade 5 25, mkTrade 6 0]"

section \<open>JavaScript numbers\<close>

text \<open>
  A number is a finite real or one of \<open>Infinity\<close>, \<open>-Infinity\<close>, \<open>NaN\<close>. The result of an
  addition, a multiplication, a division or a power is brought into the range of a double:
  a magnitude of \<open>2^1024 - 2^970\<close> or more becomes an infinity (overflow), a magnitude of
  \<open>2^-1075\<close> or less becomes zero (underflow), and what lies between is kept as it is (the
  rounding of the mantissa is not modelled). There is one zero, taken as \<open>+0\<close>, so that
  \<open>x / 0\<close> has the sign of \<open>x\<close>. The inputs of the analytics arrive as JSON and are finite.
\<close>

datatype jsnum = Fin real | PInf | NInf | NaN

definition overflowBound :: real where
  "overflowBound = 2 ^ 1024 - 2 ^ 970"

definition underflowBound :: real where
  "underflowBound = 1 / 2 ^ 1075"

definition fl :: "real \<Rightarrow> jsnum" where
  "fl x =
     (if x \<ge> overflowBound then PInf
      else if x \<le> - overflowBound then NInf
      else if \<bar>x\<bar> \<le> underflowBound then Fin 0
      else Fin x)"

fun js_neg :: "jsnum \<Rightarrow> jsnum" where
  "js_neg (Fin a) = Fin (- a)"
| "js_neg PInf = NInf"
| "js_neg NInf = PInf"
| "js_neg NaN = NaN"

fun js_add :: "jsnum \<Rightarrow> jsnum \<Rightarrow> jsnum" where
  "js_add NaN _ = NaN"
| "js_add _ NaN = NaN"
| "js_add (Fin a) (Fin b) = fl (a + b)"
| "js_add PInf NInf = NaN"
| "js_add NInf PInf = NaN"
| "js_add PInf _ = PInf"
| "js_add _ PInf = PInf"
| "js_add NInf _ = NInf"
| "js_add _ NInf = NInf"

definition js_sub :: "jsnum \<Rightarrow> jsnum \<Rightarrow> jsnum" where
  "js_sub a b = js_add a (js_neg b)"

fun js_mul :: "jsnum \<Rightarrow> jsnum \<Rightarrow> jsnum" where
  "js_mul NaN _ = NaN"
| "js_mul _ NaN = NaN"
| "js_mul (Fin a) (Fin b) = fl (a * b)"
| "js_mul (Fin a) PInf = (if a > 0 then PInf else if a < 0 then NInf else NaN)"
| "js_mul (Fin a) NInf = (if a > 0 then NInf else if a < 0 then PInf else NaN)"
| "js_mul PInf (Fin b) = (if b > 0 then PInf else if b < 0 then NInf else NaN)"
| "js_mul NInf (Fin b) = (if b > 0 then NInf else if b < 0 then PInf else NaN)"
| "js_mul PInf PInf = PInf"
| "js_mul PInf NInf = NInf"
| "js_mul NInf PInf = NInf"
| "js_mul NInf NInf = PInf"

fun js_div :: "jsnum \<Rightarrow> jsnum \<Rightarrow> jsnum" where
  "js_div NaN _ = NaN"
| "js_div _ NaN = NaN"
| "js_div (Fin a) (Fin b) =
     (if b \<noteq> 0 then fl (a / b)
      else if a > 0 then PInf else if a < 0 then NInf else NaN)"
| "js_div (Fin a) PInf = Fin 0"
| "js_div (Fin a) NInf = Fin 0"
| "js_div PInf (Fin b) = (if b \<ge> 0 then PInf else NInf)"
| "js_div NInf (Fin b) = (if b \<ge> 0 then NInf else PInf)"
| "js_div PInf PInf = NaN"
| "js_div PInf NInf = NaN"
| "js_div NInf PInf = NaN"
| "js_div NInf NInf = NaN"

text \<open>The comparisons: every comparison with \<open>NaN\<close> is false.\<close>

fun js_lt :: "jsnum \<Rightarrow> jsnum \<Rightarrow> bool" where
  "js_lt NaN _ = False"
| "js_lt _ NaN = False"
| "js_lt (Fin a) (Fin b) = (a < b)"
| "js_lt (Fin a) PInf = True"
| "js_lt (Fin a) NInf = False"
| "js_lt PInf _ = False"
| "js_lt NInf (Fin b) = True"
| "js_lt NInf PInf = True"
| "js_lt NInf NInf = False"

fun js_le :: "jsnum \<Rightarrow> jsnum \<Rightarrow> bool" where
  "js_le NaN _ = False"
| "js_le _ NaN = False"
| "js_le (Fin a) (Fin b) = (a \<le> b)"
| "js_le (Fin a) PInf = True"
| "js_le (Fin a) NInf = False"
| "js_le PInf PInf = True"
| "js_le PInf _ = False"
| "js_le NInf _ = True"

definition js_gt :: "jsnum \<Rightarrow> jsnum \<Rightarrow> bool" where
  "js_gt a b = js_lt b a"

definition js_ge :: "jsnum \<Rightarrow> jsnum \<Rightarrow> bool" where
  "js_ge a b = js_le b a"

text \<open>\<open>Math.abs\<close>, \<open>Math.min\<close>, \<open>Math.max\<close>, \<open>Math.ceil\<close>, \<open>Math.sqrt\<close>, \<open>Math.log\<close>,
  \<open>isFinite\<close>. The ceiling, the square root and the logarithm of a double are within the
  range of a double.\<close>

fun js_abs :: "jsnum \<Rightarrow> jsnum" where
  "js_abs (Fin a) = Fin \<bar>a\<bar>"
| "js_abs PInf = PInf"
| "js_abs NInf = PInf"
| "js_abs NaN = NaN"

definition js_min :: "jsnum \<Rightarrow> jsnum \<Rightarrow> jsnum" where
  "js_min a b = (if a = NaN \<or> b = NaN then NaN else if js_lt b a then b else a)"

definition js_max :: "jsnum \<Rightarrow> jsnum \<Rightarrow> jsnum" where
  "js_max a b = (if a = NaN \<or> b = NaN then NaN else if js_lt a b then b else a)"

fun js_ceil :: "jsnum \<Rightarrow> jsnum" where
  "js_ceil (Fin a) = Fin (of_int \<lceil>a\<rceil>)"
| "js_ceil x = x"

fun js_sqrt :: "jsnum \<Rightarrow> jsnum" where
  "js_sqrt (Fin a) = (if a < 0 then NaN else Fin (sqrt a))"
| "js_sqrt PInf = PInf"
| "js_sqrt NInf = NaN"
| "js_sqrt NaN = NaN"

fun js_log :: "jsnum \<Rightarrow> jsnum" where
  "js_log (Fin a) = (if a > 0 then Fin (ln a) else if a = 0 then NInf else NaN)"
| "js_log PInf = PInf"
| "js_log NInf = NaN"
| "js_log NaN = NaN"

fun isFinite :: "jsnum \<Rightarrow> bool" where
  "isFinite (Fin a) = True"
| "isFinite x = False"

text \<open>\<open>Math.pow\<close>, by the cases of the language definition: a \<open>NaN\<close> exponent, a zero
  exponent, a \<open>NaN\<close> base, an infinite base, a zero base, an infinite exponent, a negative
  base with a fractional exponent, and the ordinary power.\<close>

definition is_integer :: "real \<Rightarrow> bool" where
  "is_integer y = (y = of_int \<lfloor>y\<rfloor>)"

definition real_pow :: "real \<Rightarrow> real \<Rightarrow> real" where
  "real_pow x y =
     (if is_integer y then
        (if y \<ge> 0 then x ^ nat \<lfloor>y\<rfloor> else 1 / x ^ nat (- \<lfloor>y\<rfloor>))
      else x powr y)"

definition js_pow :: "jsnum \<Rightarrow> jsnum \<Rightarrow> jsnum" where
  "js_pow b e =
     (if e = NaN then NaN
      else if e = Fin 0 then Fin 1
      else case b of
        NaN \<Rightarrow> NaN
      | PInf \<Rightarrow> (if js_gt e (Fin 0) then PInf else Fin 0)
      | NInf \<Rightarrow>
          (if js_gt e (Fin 0) then
             (case e of Fin y \<Rightarrow> (if is_integer y \<and> odd \<lfloor>y\<rfloor> then NInf else PInf)
                      | _ \<Rightarrow> PInf)
           else Fin 0)
      | Fin x \<Rightarrow>
          (if x = 0 then (if js_gt e (Fin 0) then Fin 0 else PInf)
           else case e of
             PInf \<Rightarrow> (if \<bar>x\<bar> > 1 then PInf else if \<bar>x\<bar> = 1 then NaN else Fin 0)
           | NInf \<Rightarrow> (if \<bar>x\<bar> > 1 then Fin 0 else if \<bar>x\<bar> = 1 then NaN else PInf)
           | Fin y \<Rightarrow> (if x < 0 \<and> \<not> is_integer y then NaN else fl (real_pow x y))
           | NaN \<Rightarrow> NaN))"

text \<open>\<open>xs.reduce((a, b) => a + b, 0)\<close>.\<close>

definition js_sum :: "jsnum list \<Rightarrow> jsnum" where
  "js_sum xs = fold (\<lambda>b a. js_add a b) xs (Fin 0)"

text \<open>\<open>Math.round(x * 100) / 100\<close> on a finite number; \<open>Math.round\<close> rounds half up.\<close>

definition round2 :: "real \<Rightarrow> real" where
  "round2 x = of_int \<lfloor>x * 100 + 1 / 2\<rfloor> / 100"

section \<open>TradingReport: sums, balance curve and drawdown\<close>

text \<open>\<open>grossProfit\<close>, \<open>grossLoss\<close> and \<open>netPL\<close>; the early return gives 0 for no trades, as
  the sums do.\<close>

definition grossProfit :: "Trade list \<Rightarrow> real" where
  "grossProfit trades =
     fold (\<lambda>t sum. sum + net_profit t) (filter (\<lambda>t. net_profit t > 0) trades) 0"

definition grossLoss :: "Trade list \<Rightarrow> real" where
  "grossLoss trades =
     fold (\<lambda>t sum. sum + net_profit t) (filter (\<lambda>t. net_profit t < 0) trades) 0"

definition netPL :: "Trade list \<Rightarrow> real" where
  "netPL trades = grossProfit trades + grossLoss trades"

text \<open>The balance curve. The \<open>map\<close> callback adds to the variable \<open>runningBalance\<close> and
  emits a point whose \<open>balance\<close> and \<open>profit\<close> are rounded to cents. The state of the pass is
  the variable together with the points emitted so far.\<close>

record balance_point =
  fullDate :: int
  balance :: real
  profit :: real

definition balance_step ::
  "Trade \<Rightarrow> real \<times> balance_point list \<Rightarrow> real \<times> balance_point list" where
  "balance_step t st =
     (let runningBalance = fst st + net_profit t in
      (runningBalance,
       snd st @ [\<lparr> fullDate = time t, balance = round2 runningBalance,
                   profit = round2 (net_profit t) \<rparr>]))"

definition balance_pass :: "Trade list \<Rightarrow> real \<Rightarrow> real \<times> balance_point list" where
  "balance_pass trades initialBalance =
     fold balance_step (sortByTime trades) (initialBalance, [])"

definition balanceData :: "Trade list \<Rightarrow> real \<Rightarrow> balance_point list" where
  "balanceData trades initialBalance =
     (if trades = [] then [] else snd (balance_pass trades initialBalance))"

text \<open>The value of \<open>runningBalance\<close> when the pass is over.\<close>

definition runningBalance_final :: "Trade list \<Rightarrow> real \<Rightarrow> real" where
  "runningBalance_final trades initialBalance = fst (balance_pass trades initialBalance)"

text \<open>GrowthChart keeps its own \<open>balance\<close>, over the trades in the order given.\<close>

definition growthBalance :: "Trade list \<Rightarrow> real \<Rightarrow> real" where
  "growthBalance trades initialBalance =
     fold (\<lambda>trade balance. balance + net_profit trade) trades initialBalance"

text \<open>The drawdown loop of TradingReport: no test on \<open>peak\<close> before the division.\<close>

record dd_state =
  runningBalance :: real
  peak :: real
  maxDD :: jsnum

definition dd_of :: "real \<Rightarrow> real \<Rightarrow> jsnum" where
  "dd_of pk rb = js_mul (js_div (Fin (pk - rb)) (Fin pk)) (Fin 100)"

definition dd_step :: "Trade \<Rightarrow> dd_state \<Rightarrow> dd_state" where
  "dd_step t s =
     (let rb = runningBalance s + net_profit t;
          pk = (if rb > peak s then rb else peak s);
          dd = dd_of pk rb
      in \<lparr> runningBalance = rb, peak = pk,
           maxDD = (if js_gt dd (maxDD s) then dd else maxDD s) \<rparr>)"

definition maxDrawdown :: "Trade list \<Rightarrow> real \<Rightarrow> jsnum" where
  "maxDrawdown trades initialBalance =
     (if trades = [] then Fin 0
      else maxDD (fold dd_step (sortByTime trades)
             \<lparr> runningBalance = initialBalance, peak = initialBalance, maxDD = Fin 0 \<rparr>))"

text \<open>ChartPanel computes the drawdown of a point behind a test on the peak.\<close>

definition chartDrawdown :: "real \<Rightarrow> real \<Rightarrow> real" where
  "chartDrawdown peakBalance bal =
     (if peakBalance > 0 then ((peakBalance - bal) / peakBalance) * 100 else 0)"

text \<open>A maximal drawdown that is not negative: a number at least 0, \<open>Infinity\<close> included.\<close>

definition dd_ok :: "jsnum \<Rightarrow> bool" where
  "dd_ok m = js_le (Fin 0) m"

section \<open>RiskModel: the risk metrics\<close>

text \<open>
  \<open>riskMetrics\<close> is \<open>null\<close> when there are no trades or no stats; otherwise it is an object whose
  fields are the functions below, of the trades and of \<open>stats.initial_balance\<close>. The
  fields that no later computation reads (best and worst trade, the annualised figures, the
  ten-trade ruin probability) are left out.
\<close>

definition count :: "'a list \<Rightarrow> jsnum" where
  "count xs = Fin (real (length xs))"

definition tradeReturns :: "Trade list \<Rightarrow> real \<Rightarrow> jsnum list" where
  "tradeReturns trades initialBalance =
     map (\<lambda>t. js_mul (js_div (Fin (net_profit t)) (Fin initialBalance)) (Fin 100)) trades"

definition avgReturnPct :: "Trade list \<Rightarrow> real \<Rightarrow> jsnum" where
  "avgReturnPct trades ib =
     js_div (js_sum (tradeReturns trades ib)) (count (tradeReturns trades ib))"

definition variance :: "Trade list \<Rightarrow> real \<Rightarrow> jsnum" where
  "variance trades ib =
     js_div (fold (\<lambda>r sum. js_add sum (js_pow (js_sub r (avgReturnPct trades ib)) (Fin 2)))
               (tradeReturns trades ib) (Fin 0))
            (count (tradeReturns trades ib))"

definition stdDevPct :: "Trade list \<Rightarrow> real \<Rightarrow> jsnum" where
  "stdDevPct trades ib = js_sqrt (variance trades ib)"

definition winReturns :: "Trade list \<Rightarrow> real \<Rightarrow> jsnum list" where
  "winReturns trades ib = filter (\<lambda>r. js_gt r (Fin 0)) (tradeReturns trades ib)"

definition lossReturns :: "Trade list \<Rightarrow> real \<Rightarrow> jsnum list" where
  "lossReturns trades ib = filter (\<lambda>r. js_lt r (Fin 0)) (tradeReturns trades ib)"

definition avgWinPct :: "Trade list \<Rightarrow> real \<Rightarrow> jsnum" where
  "avgWinPct trades ib =
     (if length (winReturns trades ib) > 0
      then js_div (js_sum (winReturns trades ib)) (count (winReturns trades ib))
      else Fin 0)"

definition avgLossPct :: "Trade list \<Rightarrow> real \<Rightarrow> jsnum" where
  "avgLossPct trades ib =
     (if length (lossReturns trades ib) > 0
      then js_abs (js_div (js_sum (lossReturns trades ib)) (count (lossReturns trades ib)))
      else Fin 0)"

definition winRate :: "Trade list \<Rightarrow> real \<Rightarrow> jsnum" where
  "winRate trades ib = js_mul (js_div (count (winReturns trades ib)) (count trades)) (Fin 100)"

definition riskRewardRatio :: "Trade list \<Rightarrow> real \<Rightarrow> jsnum" where
  "riskRewardRatio trades ib =
     (if js_gt (avgLossPct trades ib) (Fin 0)
      then js_div (avgWinPct trades ib) (avgLossPct trades ib) else Fin 0)"

definition expectancyPct :: "Trade list \<Rightarrow> real \<Rightarrow> jsnum" where
  "expectancyPct trades ib =
     js_sub (js_mul (js_div (winRate trades ib) (Fin 100)) (avgWinPct trades ib))
            (js_mul (js_sub (Fin 1) (js_div (winRate trades ib) (Fin 100)))
                    (avgLossPct trades ib))"

definition kellyPct :: "Trade list \<Rightarrow> real \<Rightarrow> jsnum" where
  "kellyPct trades ib =
     (if js_gt (avgLossPct trades ib) (Fin 0)
      then js_mul
             (js_div
                (js_sub (js_mul (js_div (winRate trades ib) (Fin 100))
                                (riskRewardRatio trades ib))
                        (js_sub (Fin 1) (js_div (winRate trades ib) (Fin 100))))
                (riskRewardRatio trades ib))
             (Fin 100)
      else Fin 0)"

definition kellyHalf :: "Trade list \<Rightarrow> real \<Rightarrow> jsnum" where
  "kellyHalf trades ib = js_div (kellyPct trades ib) (Fin 2)"

definition totalWins :: "Trade list \<Rightarrow> real \<Rightarrow> jsnum" where
  "totalWins trades ib = js_sum (winReturns trades ib)"

definition totalLosses :: "Trade list \<Rightarrow> real \<Rightarrow> jsnum" where
  "totalLosses trades ib = js_abs (js_sum (lossReturns trades ib))"

definition profitFactor :: "Trade list \<Rightarrow> real \<Rightarrow> jsnum" where
  "profitFactor trades ib =
     (if js_gt (totalLosses trades ib) (Fin 0)
      then js_div (totalWins trades ib) (totalLosses trades ib) else Fin 0)"

definition breakEvenWinRate :: "Trade list \<Rightarrow> real \<Rightarrow> jsnum" where
  "breakEvenWinRate trades ib =
     (if js_gt (js_add (avgWinPct trades ib) (avgLossPct trades ib)) (Fin 0)
      then js_mul (js_div (avgLossPct trades ib)
                          (js_add (avgWinPct trades ib) (avgLossPct trades ib))) (Fin 100)
      else Fin 50)"

definition edge :: "Trade list \<Rightarrow> real \<Rightarrow> jsnum" where
  "edge trades ib = js_sub (winRate trades ib) (breakEvenWinRate trades ib)"

text \<open>The consecutive losses needed for each drawdown level: pairs of \<open>level\<close> and
  \<open>trades\<close>.\<close>

definition drawdownLevels :: "real list" where
  "drawdownLevels = [10, 20, 30, 50]"

definition consecutiveLosses_at :: "Trade list \<Rightarrow> real \<Rightarrow> real \<Rightarrow> real \<times> jsnum" where
  "consecutiveLosses_at trades ib dd =
     (if js_le (avgLossPct trades ib) (Fin 0) then (dd, Fin 999)
      else (dd, js_ceil (js_div (Fin dd) (avgLossPct trades ib))))"

definition consecutiveLosses_levels :: "Trade list \<Rightarrow> real \<Rightarrow> (real \<times> jsnum) list" where
  "consecutiveLosses_levels trades ib = map (consecutiveLosses_at trades ib) drawdownLevels"

text \<open>The rows of the drawdown risk table: level, consecutive losses, probability.\<close>

definition probability :: "Trade list \<Rightarrow> real \<Rightarrow> jsnum \<Rightarrow> jsnum" where
  "probability trades ib n =
     (let lossRate = js_sub (Fin 1) (js_div (winRate trades ib) (Fin 100))
      in js_mul (js_pow lossRate n) (Fin 100))"

definition drawdownRiskTable :: "Trade list \<Rightarrow> real \<Rightarrow> (real \<times> jsnum \<times> jsnum) list option" where
  "drawdownRiskTable trades ib =
     (if trades = [] then None
      else Some (map (\<lambda>(level, n). (level, n, probability trades ib n))
                     (consecutiveLosses_levels trades ib)))"

text \<open>StatsPanel and TradingReport print a profit factor of 999 or more as the infinity
  sign; RiskModel prints its own profit factor with two decimals.\<close>

definition displaysInfinity :: "jsnum \<Rightarrow> bool" where
  "displaysInfinity profit_factor = js_ge profit_factor (Fin 999)"

section \<open>RiskModel: the recommendation\<close>

text \<open>The score starts at 50 and is adjusted five times, then clamped to 0..100.\<close>

definition riskScore :: "Trade list \<Rightarrow> real \<Rightarrow> int" where
  "riskScore trades ib =
     (let s0 = 50;
          s1 = s0 + (if js_gt (edge trades ib) (Fin 15) then 20
                     else if js_gt (edge trades ib) (Fin 10) then 15
                     else if js_gt (edge trades ib) (Fin 5) then 10
                     else if js_gt (edge trades ib) (Fin 0) then 5
                     else - 20);
          s2 = s1 + (if js_ge (winRate trades ib) (Fin 50) then 10 else - 10);
          s3 = s2 + (if js_ge (profitFactor trades ib) (Fin 2) then 15
                     else if js_ge (profitFactor trades ib) (Fin (3 / 2)) then 10
                     else if js_ge (profitFactor trades ib) (Fin (6 / 5)) then 5
                     else if js_lt (profitFactor trades ib) (Fin 1) then - 20
                     else 0);
          s4 = s3 + (if js_gt (expectancyPct trades ib) (Fin (1 / 2)) then 10
                     else if js_gt (expectancyPct trades ib) (Fin 0) then 5
                     else - 15);
          s5 = s4 + (if js_lt (stdDevPct trades ib) (avgLossPct trades ib) then 5
                     else if js_gt (stdDevPct trades ib)
                               (js_mul (avgLossPct trades ib) (Fin 2)) then - 10
                     else 0)
      in max 0 (min 100 s5))"

definition recommendedPct :: "Trade list \<Rightarrow> real \<Rightarrow> jsnum" where
  "recommendedPct trades ib =
     (if riskScore trades ib \<ge> 75 then js_min (kellyHalf trades ib) (Fin 5)
      else if riskScore trades ib \<ge> 50
        then js_min (js_div (kellyHalf trades ib) (Fin 2)) (Fin 3)
      else if riskScore trades ib \<ge> 30
        then js_min (Fin 1) (js_div (kellyHalf trades ib) (Fin 4))
      else Fin (1 / 2))"

text \<open>Nothing is recommended when \<open>riskMetrics\<close> is \<open>null\<close>.\<close>

definition recommendation :: "Trade list \<Rightarrow> real \<Rightarrow> jsnum option" where
  "recommendation trades ib =
     (if trades = [] then None else Some (recommendedPct trades ib))"

section \<open>RiskOfRuin\<close>

text \<open>
  The component of \<open>DailyStats.tsx\<close>. It works on the profits themselves, with a balance
  of 10000 assumed. Names that RiskModel uses too carry the suffix \<open>_ror\<close>. The average
  win and the risk-reward ratio are computed there and not read again; they are left out.
\<close>

definition winRate_ror :: "Trade list \<Rightarrow> real" where
  "winRate_ror trades =
     (if length trades > 0
      then real (length (filter (\<lambda>t. net_profit t > 0) trades)) / real (length trades)
      else 1 / 2)"

definition avgLoss :: "Trade list \<Rightarrow> real" where
  "avgLoss trades =
     (let losses = filter (\<lambda>t. net_profit t < 0) trades in
      if length losses > 0
      then \<bar>fold (\<lambda>t s. s + net_profit t) losses 0 / real (length losses)\<bar>
      else 1)"

definition lossPerTradeAvg :: "Trade list \<Rightarrow> real" where
  "lossPerTradeAvg trades = avgLoss trades / 10000"

definition lossLevels :: "real list" where
  "lossLevels = [100, 90, 80, 70, 60, 50, 40, 30, 20, 10]"

text \<open>The consecutive losses for a level: the geometric estimate, replaced by the linear
  one when it is negative or not finite.\<close>

definition consecutiveLosses_ror :: "Trade list \<Rightarrow> real \<Rightarrow> jsnum" where
  "consecutiveLosses_ror trades lossPercent =
     (let remainingPercent = (100 - lossPercent) / 100;
          c0 = (if lossPerTradeAvg trades > 0
                then js_ceil (js_div (js_log (Fin remainingPercent))
                                     (js_log (Fin (1 - lossPerTradeAvg trades))))
                else Fin 0)
      in if js_lt c0 (Fin 0) \<or> \<not> isFinite c0
         then js_ceil (js_div (Fin lossPercent) (Fin (lossPerTradeAvg trades * 100)))
         else c0)"

definition probability_ror :: "Trade list \<Rightarrow> real \<Rightarrow> jsnum" where
  "probability_ror trades lossPercent =
     (let lossRate = 1 - winRate_ror trades;
          p = (if winRate_ror trades > 1 / 2
               then js_mul (js_pow (Fin (lossRate / winRate_ror trades))
                                   (consecutiveLosses_ror trades lossPercent)) (Fin 100)
               else js_mul (js_pow (Fin lossRate)
                                   (js_div (consecutiveLosses_ror trades lossPercent) (Fin 10)))
                           (Fin 100))
      in js_max (Fin 0) (js_min (Fin 100) p))"

text \<open>The rows of \<open>riskData.lossLevels\<close>: \<open>lossSize\<close>, \<open>probability\<close>,
  \<open>consecutiveLosses\<close>.\<close>

definition riskData :: "Trade list \<Rightarrow> (real \<times> jsnum \<times> jsnum) list" where
  "riskData trades =
     (if trades = [] then []
      else map (\<lambda>lossPercent.
                  (lossPercent, probability_ror trades lossPercent,
                   js_max (Fin 1) (consecutiveLosses_ror trades lossPercent)))
               lossLevels)"

text \<open>The longest losing streak of the history, \<open>maxConsecutiveLosses\<close>: over the trades in
  the order given, a trade with a negative profit extends the streak and any other trade
  resets it.\<close>

definition maxConsLosses_step :: "Trade \<Rightarrow> nat \<times> nat \<Rightarrow> nat \<times> nat" where
  "maxConsLosses_step t st =
     (if net_profit t < 0 then (max (fst st) (snd st + 1), snd st + 1) else (fst st, 0))"

definition maxConsLosses :: "Trade list \<Rightarrow> nat" where
  "maxConsLosses trades = fst (fold maxConsLosses_step trades (0, 0))"

definition ruinTrades :: "Trade list" where
  "ruinTrades = [mkTrade 1 1, mkTrade 2 1, mkTrade 3 (-5000)]"

section \<open>PeriodsComparison and MAEMFEChart: the clock and the random draws\<close>

text \<open>
  \<open>periodsData\<close> calls \<open>new Date()\<close> itself. The reading \<open>now\<close> (milliseconds since the
  epoch) is made an argument here. The host's time zone is UTC: local midnight is a multiple
  of a day of 86400000 milliseconds, and \<open>setDate(getDate() - 1)\<close> moves back by one such
  day. The rows \<open>Today\<close> and \<open>This Week\<close> are modelled; the month and year rows need the
  civil calendar and are left out.
\<close>

definition dayMs :: int where
  "dayMs = 86400000"

text \<open>\<open>new Date(now.getFullYear(), now.getMonth(), now.getDate())\<close>: local midnight.\<close>

definition today :: "int \<Rightarrow> int" where
  "today now = now - now mod dayMs"

text \<open>\<open>now.getDay()\<close>, Sunday being 0; the first of January 1970 was a Thursday.\<close>

definition getDay :: "int \<Rightarrow> int" where
  "getDay now = (now div dayMs + 4) mod 7"

definition thisWeekStart :: "int \<Rightarrow> int" where
  "thisWeekStart now =
     (let dayOfWeek = getDay now;
          mondayOffset = (if dayOfWeek = 0 then - 6 else 1 - dayOfWeek)
      in today now + mondayOffset * dayMs)"

definition lastWeekStart :: "int \<Rightarrow> int" where
  "lastWeekStart now = thisWeekStart now - 7 * dayMs"

text \<open>\<open>symbol.toLowerCase()\<close> on ASCII letters, and \<open>String.prototype.includes\<close>.\<close>

definition toLowerCase :: "string \<Rightarrow> string" where
  "toLowerCase s =
     map (\<lambda>c. if 65 \<le> (of_char c :: nat) \<and> (of_char c :: nat) \<le> 90
              then char_of ((of_char c :: nat) + 32) else c) s"

fun includes_str :: "string \<Rightarrow> string \<Rightarrow> bool" where
  "includes_str [] p = (p = [])"
| "includes_str (c # cs) p = (take (length p) (c # cs) = p \<or> includes_str cs p)"

definition estimatePips :: "Trade \<Rightarrow> jsnum" where
  "estimatePips trade =
     (if includes_str (toLowerCase (symbol trade)) ''xau''
      then js_div (js_div (Fin (net_profit trade)) (Fin (volume trade))) (Fin 10)
      else js_mul (js_div (Fin (net_profit trade)) (Fin (volume trade))) (Fin 10))"

text \<open>\<open>calculatePeriod(start, end)\<close>.\<close>

record period_sums =
  sum_profit :: real
  sum_pips :: jsnum
  sum_wins :: nat
  sum_total :: nat
  sum_lots :: real

definition calculatePeriod :: "Trade list \<Rightarrow> int \<Rightarrow> int \<Rightarrow> period_sums" where
  "calculatePeriod trades start end' =
     (let periodTrades = filter (\<lambda>t. time t \<ge> start \<and> time t < end') trades in
      \<lparr> sum_profit = fold (\<lambda>t sum. sum + net_profit t) periodTrades 0,
        sum_pips = fold (\<lambda>t sum. js_add sum (estimatePips t)) periodTrades (Fin 0),
        sum_wins = length (filter (\<lambda>t. net_profit t > 0) periodTrades),
        sum_total = length periodTrades,
        sum_lots = fold (\<lambda>t sum. sum + volume t) periodTrades 0 \<rparr>)"

text \<open>A row of the table, from the sums of the current window and of the one before; the
  initial balance is the constant 10000.\<close>

record PeriodData =
  label :: string
  gainPct :: real
  periodProfit :: real
  pips :: jsnum
  winPct :: real
  periodTrades :: nat
  lots :: real
  prevGainPct :: real
  prevProfit :: real
  prevPips :: jsnum
  prevWinPct :: real
  prevTrades :: nat
  prevLots :: real

definition periodRow :: "string \<Rightarrow> period_sums \<Rightarrow> period_sums \<Rightarrow> PeriodData" where
  "periodRow name current prev =
     \<lparr> label = name,
       gainPct = (sum_profit current / 10000) * 100,
       periodProfit = sum_profit current,
       pips = sum_pips current,
       winPct = (if sum_total current > 0
                 then (real (sum_wins current) / real (sum_total current)) * 100 else 0),
       periodTrades = sum_total current,
       lots = sum_lots current,
       prevGainPct = (sum_profit prev / 10000) * 100,
       prevProfit = sum_profit prev,
       prevPips = sum_pips prev,
       prevWinPct = (if sum_total prev > 0
                     then (real (sum_wins prev) / real (sum_total prev)) * 100 else 0),
       prevTrades = sum_total prev,
       prevLots = sum_lots prev \<rparr>"

definition periodToday :: "int \<Rightarrow> Trade list \<Rightarrow> PeriodData" where
  "periodToday now trades =
     (let current = calculatePeriod trades (today now) (today now + 86400000);
          yesterday = today now - dayMs;
          prev = calculatePeriod trades yesterday (today now)
      in periodRow ''Today'' current prev)"

definition periodThisWeek :: "int \<Rightarrow> Trade list \<Rightarrow> PeriodData" where
  "periodThisWeek now trades =
     (let current = calculatePeriod trades (thisWeekStart now) now;
          prev = calculatePeriod trades (lastWeekStart now) (thisWeekStart now)
      in periodRow ''This Week'' current prev)"

definition periodsData :: "int \<Rightarrow> Trade list \<Rightarrow> PeriodData list" where
  "periodsData now trades = [periodToday now trades, periodThisWeek now trades]"

text \<open>
  The MAE estimate of MAEMFEChart calls \<open>Math.random()\<close> once for each trade. The draw
  \<open>r\<close>, a number from 0 up to but not including 1, is made an argument here.
\<close>

definition mae :: "Trade \<Rightarrow> real \<Rightarrow> jsnum" where
  "mae trade r =
     (if net_profit trade > 0
      then js_mul (js_neg (js_abs (estimatePips trade))) (Fin (r * (3 / 10)))
      else js_mul (estimatePips trade) (Fin (1 + r * (1 / 2))))"

text \<open>TradingReport estimates the MAE of a trade too, in \<open>maeMfeData\<close>, from the trade
  alone.\<close>

definition maeMfeData_mae :: "Trade \<Rightarrow> jsnum" where
  "maeMfeData_mae t =
     js_mul (js_neg (js_abs (Fin (net_profit t))))
            (Fin (if net_profit t < 0 then 1 else 3 / 10))"

definition clockTrade :: Trade where
  "clockTrade = \<lparr> time = 1000, symbol = ''XAUUSD'', volume = 1, net_profit = 50 \<rparr>"


text \<open>Further histories used as examples.\<close>

definition capTrades :: "Trade list" where
  "capTrades = [mkTrade 1 30, mkTrade 2 (-10)]"

definition tableTrades :: "Trade list" where
  "tableTrades = [mkTrade 1 100, mkTrade 2 100, mkTrade 3 (- 1500)]"

section \<open>Numbers within range\<close>

lemma overflowBound_large: "2 ^ 970 \<le> overflowBound"
proof -
  have e: "(54::nat) + 970 = 1024" by simp
  have p: "(0::real) \<le> 2 ^ 970" by (rule zero_le_power) simp
  have "(2::real) \<le> 2 ^ 54" by simp
  then have "(2::real) * 2 ^ 970 \<le> 2 ^ 54 * 2 ^ 970" using p by (rule mult_right_mono)
  moreover have "(2::real) ^ 1024 = 2 ^ 54 * 2 ^ 970"
    using power_add[of "2::real" 54 970] by (simp only: e)
  ultimately show ?thesis unfolding overflowBound_def by linarith
qed

lemma overflowBound_above: "10 ^ 30 < overflowBound"
proof -
  have "(10::real) ^ 30 < 2 ^ 100" by simp
  also have "(2::real) ^ 100 \<le> 2 ^ 970" by (intro power_increasing) simp_all
  finally show ?thesis using overflowBound_large by linarith
qed

lemma underflowBound_below: "underflowBound < 1 / 10 ^ 30"
proof -
  have "(10::real) ^ 30 < 2 ^ 100" by simp
  also have "(2::real) ^ 100 \<le> 2 ^ 1075" by (intro power_increasing) simp_all
  finally have "(10::real) ^ 30 < 2 ^ 1075" .
  then have "1 / (2::real) ^ 1075 < 1 / 10 ^ 30"
    by (intro divide_strict_left_mono) (simp_all del: power_numeral)
  then show ?thesis by (simp only: underflowBound_def)
qed

lemma fl_zero: "fl 0 = Fin 0"
proof -
  have "(0::real) < 10 ^ 30" by simp
  with overflowBound_above have "(0::real) < overflowBound" by linarith
  moreover have "(0::real) \<le> underflowBound" by (simp add: underflowBound_def)
  ultimately show ?thesis by (simp add: fl_def)
qed

lemma fl_mid: "1 / 10 ^ 30 \<le> \<bar>x\<bar> \<Longrightarrow> \<bar>x\<bar> \<le> 10 ^ 30 \<Longrightarrow> fl x = Fin x"
proof -
  assume a: "1 / 10 ^ 30 \<le> \<bar>x\<bar>" "\<bar>x\<bar> \<le> 10 ^ 30"
  from a(2) overflowBound_above have "\<not> x \<ge> overflowBound" "\<not> x \<le> - overflowBound"
    by linarith+
  moreover from a(1) underflowBound_below have "\<not> \<bar>x\<bar> \<le> underflowBound" by linarith
  ultimately show ?thesis by (simp only: fl_def if_False)
qed





lemma fl_tiny: "0 \<le> x \<Longrightarrow> x \<le> 1 / 2 ^ 1075 \<Longrightarrow> fl x = Fin 0"
proof -
  assume a: "0 \<le> x" "x \<le> 1 / 2 ^ 1075"
  have "(1::real) / 2 ^ 1075 \<le> 1" by (simp del: power_numeral)
  moreover have "(1::real) < 10 ^ 30" by simp
  ultimately have "x < overflowBound" using a overflowBound_above by linarith
  then have "\<not> x \<ge> overflowBound" "\<not> x \<le> - overflowBound" using a by linarith+
  moreover have "\<bar>x\<bar> \<le> underflowBound" using a unfolding underflowBound_def by linarith
  ultimately show ?thesis by (simp only: fl_def if_False if_True)
qed

lemma third_power_tiny: "((1::real) / 3) ^ 999 \<le> 1 / 2 ^ 1075"
proof -
  have e1: "(14::nat) * 77 = 1078" and e2: "(9::nat) * 77 = 693" by simp_all
  have a: "((2::real) ^ 14) ^ 77 = 2 ^ 1078"
    using power_mult[of "2::real" 14 77] by (simp only: e1)
  have b: "((3::real) ^ 9) ^ 77 = 3 ^ 693"
    using power_mult[of "3::real" 9 77] by (simp only: e2)
  have "(2::real) ^ 14 \<le> 3 ^ 9" by simp
  then have "((2::real) ^ 14) ^ 77 \<le> ((3::real) ^ 9) ^ 77" by (rule power_mono) simp
  then have c: "(2::real) ^ 1078 \<le> 3 ^ 693" by (simp only: a b)
  have "(2::real) ^ 1075 \<le> 2 ^ 1078" by (rule power_increasing) simp_all
  moreover have "(3::real) ^ 693 \<le> 3 ^ 999" by (rule power_increasing) simp_all
  ultimately have d: "(2::real) ^ 1075 \<le> 3 ^ 999" using c by linarith
  have "1 / (3::real) ^ 999 \<le> 1 / 2 ^ 1075"
  proof (rule divide_left_mono)
    show "(2::real) ^ 1075 \<le> 3 ^ 999" by (rule d)
    show "(0::real) \<le> 1" by simp
    show "(0::real) < 3 ^ 999 * 2 ^ 1075"
      by (intro mult_pos_pos zero_less_power) simp_all
  qed
  then show ?thesis by (simp only: power_one_over)
qed

section \<open>Streak pass: invariants\<close>

lemma streak_step_profit_sign:
  "0 \<le> maxConsecutiveProfit s \<Longrightarrow> 0 \<le> maxConsecutiveProfit (streak_step t s)"
  by (simp add: streak_step_def split: option.split)

lemma streak_step_loss_sign:
  "maxConsecutiveLoss s \<le> 0 \<Longrightarrow> maxConsecutiveLoss (streak_step t s) \<le> 0"
  by (simp add: streak_step_def split: option.split)

lemma streak_fold_profit_sign:
  "0 \<le> maxConsecutiveProfit s \<Longrightarrow> 0 \<le> maxConsecutiveProfit (fold streak_step ts s)"
  by (induction ts arbitrary: s) (simp_all add: streak_step_profit_sign)

lemma streak_fold_loss_sign:
  "maxConsecutiveLoss s \<le> 0 \<Longrightarrow> maxConsecutiveLoss (fold streak_step ts s) \<le> 0"
  by (induction ts arbitrary: s) (simp_all add: streak_step_loss_sign)

text \<open>
  C10. For every trade list the reported cumulative P/L maxima do not cross zero:
  \<open>maxConsecutiveProfit\<close> is at least 0 and \<open>maxConsecutiveLoss\<close> is at most 0.
\<close>

theorem streak_maxima_sign:
  "0 \<le> maxConsecutiveProfit (streaks trades) \<and> maxConsecutiveLoss (streaks trades) \<le> 0"
proof (cases "trades = []")
  case True
  then show ?thesis by (simp add: streaks_def streak_init_def)
next
  case False
  have "0 \<le> maxConsecutiveProfit (fold streak_step (sortByTime trades) streak_init)"
    by (rule streak_fold_profit_sign) (simp add: streak_init_def)
  moreover have "maxConsecutiveLoss (fold streak_step (sortByTime trades) streak_init) \<le> 0"
    by (rule streak_fold_loss_sign) (simp add: streak_init_def)
  ultimately show ?thesis using False
    by (simp add: streaks_def streak_flush_def Let_def)
qed

lemma takeWhile_replicate_other:
  "x \<noteq> b \<Longrightarrow> length (takeWhile (\<lambda>y. y = b) (replicate c b @ x # xs)) = c"
  by (induction c) auto

lemma max_run_replicate_other:
  "x \<noteq> l \<Longrightarrow> max_run b (replicate c l @ x # xs) =
     max (if l = b then c else 0) (max_run b (x # xs))"
proof (induction c)
  case 0
  then show ?case by simp
next
  case (Suc c)
  show ?case
  proof (cases "l = b")
    case True
    then have "length (takeWhile (\<lambda>y. y = b) (replicate (Suc c) l @ x # xs)) = Suc c"
      using Suc.prems takeWhile_replicate_other[of x b "Suc c" xs] by simp
    then show ?thesis using Suc True by (simp del: takeWhile.simps)
  next
    case False
    then show ?thesis using Suc by simp
  qed
qed

lemma max_run_replicate_end:
  "max_run b (replicate c l) = (if l = b then c else 0)"
  by (induction c) auto

lemma streak_step_same:
  "lastWasWin s = Some l \<Longrightarrow> isWin t = l \<Longrightarrow>
   lastWasWin (streak_step t s) = Some l \<and>
   currentStreak (streak_step t s) = Suc (currentStreak s) \<and>
   maxWinStreak (streak_step t s) = maxWinStreak s \<and>
   maxLossStreak (streak_step t s) = maxLossStreak s"
  by (simp add: streak_step_def)

lemma streak_step_change:
  "lastWasWin s = Some l \<Longrightarrow> isWin t \<noteq> l \<Longrightarrow>
   lastWasWin (streak_step t s) = Some (isWin t) \<and>
   currentStreak (streak_step t s) = 1 \<and>
   maxWinStreak (streak_step t s) = max (maxWinStreak s) (if l then currentStreak s else 0) \<and>
   maxLossStreak (streak_step t s) = max (maxLossStreak s) (if l then 0 else currentStreak s)"
  by (auto simp: streak_step_def)

lemma streak_fold_runs:
  "lastWasWin s = Some l \<Longrightarrow>
   maxWinStreak (streak_flush (fold streak_step ts s)) =
     max (maxWinStreak s) (max_run True (replicate (currentStreak s) l @ map isWin ts)) \<and>
   maxLossStreak (streak_flush (fold streak_step ts s)) =
     max (maxLossStreak s) (max_run False (replicate (currentStreak s) l @ map isWin ts))"
proof (induction ts arbitrary: s l)
  case Nil
  then show ?case by (auto simp: streak_flush_def Let_def max_run_replicate_end)
next
  case (Cons t ts)
  show ?case
  proof (cases "isWin t = l")
    case True
    note st = streak_step_same[OF Cons.prems True]
    have eq: "replicate (Suc (currentStreak s)) l @ map isWin ts =
          replicate (currentStreak s) l @ map isWin (t # ts)"
      using True by (simp add: replicate_app_Cons_same)
    from st have "lastWasWin (streak_step t s) = Some l" by simp
    from Cons.IH[OF this] show ?thesis unfolding eq[symmetric] using st by simp
  next
    case False
    note st = streak_step_change[OF Cons.prems False]
    have r: "\<And>b. max_run b (replicate (currentStreak s) l @ map isWin (t # ts)) =
       max (if l = b then currentStreak s else 0) (max_run b (isWin t # map isWin ts))"
      using max_run_replicate_other[OF False] by simp
    from st have "lastWasWin (streak_step t s) = Some (isWin t)" by simp
    from Cons.IH[OF this] show ?thesis using st r[of True] r[of False]
      by (simp del: max_run.simps add: max.assoc)
  qed
qed

text \<open>
  What the two counters hold: \<open>consecutiveWins\<close> is the longest block of consecutive wins
  of the time-ordered trades and \<open>consecutiveLosses\<close> the longest block of consecutive
  trades that are not wins, the final in-progress streak included. For three losses, then
  two wins, then one zero-profit trade they are 3 and 2.
\<close>

lemma streak_counts_are_runs:
  "consecutiveWins trades = max_run True (map isWin (sortByTime trades)) \<and>
   consecutiveLosses trades = max_run False (map isWin (sortByTime trades))"
proof (cases "sortByTime trades")
  case Nil
  then have "length trades = 0"
    using length_sort[of time trades] by (simp add: sortByTime_def)
  then have "trades = []" by simp
  then show ?thesis
    by (simp add: consecutiveWins_def consecutiveLosses_def streaks_def streak_init_def
        sortByTime_def)
next
  case (Cons t ts)
  then have ne: "trades \<noteq> []" by (auto simp: sortByTime_def)
  let ?s = "streak_step t streak_init"
  have l: "lastWasWin ?s = Some (isWin t)"
    by (simp add: streak_step_def streak_init_def)
  have c: "currentStreak ?s = 1" "maxWinStreak ?s = 0" "maxLossStreak ?s = 0"
    by (simp_all add: streak_step_def streak_init_def)
  show ?thesis using streak_fold_runs[OF l, of ts] c ne Cons
    by (simp add: consecutiveWins_def consecutiveLosses_def streaks_def)
qed

lemma scenarioD_counts: "consecutiveLosses scenarioD = 3 \<and> consecutiveWins scenarioD = 2"
proof -
  have "map isWin (sortByTime scenarioD) = [False, False, False, True, True, False]"
    by (simp add: scenarioD_def sortByTime_def mkTrade_def isWin_def)
  then show ?thesis using streak_counts_are_runs[of scenarioD] by simp
qed

text \<open>
  C1. The claim asks that a zero-profit trade break the streak without extending either
  counter, and that the final streak be flushed with its length and its cumulative P/L.
  The pass has a two-valued flag, \<open>net_profit > 0\<close>, so a zero-profit trade counts with
  the losses: after one loss and one zero-profit trade it reports two consecutive losses,
  where one trade lost and where the counter of RiskOfRuin, over the same trades, reports
  one. The statements after the loop flush the length of the final streak and not its
  total, which the flush inside the loop handles: one winning trade of 5 is a winning streak
  of length 1 with a reported total of 0.
\<close>

theorem streak_pass_diverges:
  "length (filter (\<lambda>t. net_profit t < 0) [mkTrade 1 (-1), mkTrade 2 0]) = 1 \<and>
   consecutiveLosses [mkTrade 1 (-1), mkTrade 2 0] = 2 \<and>
   maxConsLosses [mkTrade 1 (-1), mkTrade 2 0] = 1 \<and>
   consecutiveWins [mkTrade 1 5] = 1 \<and>
   maxConsecutiveProfit (streaks [mkTrade 1 5]) = 0"
  by (simp add: consecutiveLosses_def consecutiveWins_def streaks_def sortByTime_def
      mkTrade_def streak_step_def streak_init_def streak_flush_def isWin_def
      maxConsLosses_def maxConsLosses_step_def)

section \<open>Balance curve and drawdown\<close>

lemma sum_list_insort_key:
  "sum_list (map f (insort_key k x xs)) = f x + sum_list (map f xs)"
  for f :: "'a \<Rightarrow> real"
  by (induction xs) (auto simp: algebra_simps)

lemma sum_list_sort_key:
  "sum_list (map f (sort_key k xs)) = sum_list (map f (xs :: 'a list)) "
  for f :: "'a \<Rightarrow> real"
  unfolding sort_key_def by (induction xs) (simp_all add: sum_list_insort_key)

lemma fold_add_sum_list:
  "fold (\<lambda>t acc. acc + g t) xs (a::real) = a + sum_list (map g xs)"
  by (induction xs arbitrary: a) (simp_all add: algebra_simps)

lemma grossProfit_sum: "grossProfit trades = sum_list (map net_profit (filter (\<lambda>t. 0 < net_profit t) trades))"
  by (simp add: grossProfit_def fold_add_sum_list)

lemma grossLoss_sum: "grossLoss trades = sum_list (map net_profit (filter (\<lambda>t. net_profit t < 0) trades))"
  by (simp add: grossLoss_def fold_add_sum_list)

lemma sum_list_split_sign:
  "sum_list (map f (filter (\<lambda>t. 0 < f t) xs)) + sum_list (map f (filter (\<lambda>t. f t < 0) xs))
     = sum_list (map f xs)" for f :: "'a \<Rightarrow> real"
  by (induction xs) auto

lemma netPL_sum: "netPL trades = sum_list (map net_profit trades)"
  by (simp add: netPL_def grossProfit_sum grossLoss_sum sum_list_split_sign)

lemma balance_fold_fst:
  "fst (fold balance_step xs st) = fst st + sum_list (map net_profit xs)"
  by (induction xs arbitrary: st) (simp_all add: balance_step_def Let_def algebra_simps)

lemma balance_fold_last:
  "xs \<noteq> [] \<Longrightarrow>
   balance (last (snd (fold balance_step xs st))) = round2 (fst (fold balance_step xs st))"
proof (induction xs arbitrary: st)
  case Nil
  then show ?case by simp
next
  case (Cons x xs)
  show ?case
  proof (cases "xs = []")
    case True
    then show ?thesis by (simp add: balance_step_def Let_def)
  next
    case False
    from Cons.IH[OF False, of "balance_step x st"] show ?thesis by simp
  qed
qed

lemma round2_close: "\<bar>round2 x - x\<bar> \<le> 1 / 200"
proof -
  let ?n = "\<lfloor>x * 100 + 1 / 2\<rfloor>"
  have "of_int ?n \<le> x * 100 + 1 / 2" "x * 100 + 1 / 2 < of_int ?n + 1"
    by linarith+
  then have "\<bar>of_int ?n - x * 100\<bar> \<le> 1 / 2" by linarith
  then have "\<bar>of_int ?n / 100 - x\<bar> \<le> 1 / 200" by (simp add: field_simps abs_le_iff)
  then show ?thesis by (simp add: round2_def)
qed

text \<open>
  C3 (as amended). For any trade list and any initial balance, the running balance that the
  pass accumulates equals the initial balance plus the sum of the net profits, exactly, in
  TradingReport and in GrowthChart alike, and so does the balance that the summary prints,
  the initial balance plus the net P/L. The balance that TradingReport reports for the last
  point of the curve is this value rounded to the nearest cent, hence within half a cent
  of it.
\<close>

theorem running_balance_exact:
  "runningBalance_final trades initialBalance
     = initialBalance + sum_list (map net_profit trades) \<and>
   growthBalance trades initialBalance
     = initialBalance + sum_list (map net_profit trades) \<and>
   initialBalance + netPL trades
     = initialBalance + sum_list (map net_profit trades) \<and>
   (trades \<noteq> [] \<longrightarrow>
      balance (last (balanceData trades initialBalance))
        = round2 (initialBalance + sum_list (map net_profit trades)) \<and>
      \<bar>balance (last (balanceData trades initialBalance))
        - (initialBalance + sum_list (map net_profit trades))\<bar> \<le> 1 / 200)"
proof -
  have s: "sum_list (map net_profit (sortByTime trades)) = sum_list (map net_profit trades)"
    by (simp add: sortByTime_def sum_list_sort_key)
  have a: "runningBalance_final trades initialBalance
     = initialBalance + sum_list (map net_profit trades)"
    by (simp add: runningBalance_final_def balance_pass_def balance_fold_fst s)
  have b: "growthBalance trades initialBalance
     = initialBalance + sum_list (map net_profit trades)"
    by (simp add: growthBalance_def fold_add_sum_list)
  have c: "balance (last (balanceData trades initialBalance))
        = round2 (initialBalance + sum_list (map net_profit trades))" if ne: "trades \<noteq> []"
  proof -
    have "length (sortByTime trades) = length trades" by (simp add: sortByTime_def)
    with ne have "sortByTime trades \<noteq> []" by auto
    from balance_fold_last[OF this, of "(initialBalance, [])"] show ?thesis
      using ne by (simp add: balanceData_def balance_pass_def balance_fold_fst s)
  qed
  show ?thesis using a b c round2_close by (simp add: netPL_sum)
qed

theorem running_balance_exact_witness:
  "runningBalance_final [mkTrade 1 (4 / 1000)] 1000 = 1000 + 4 / 1000 \<and>
   balance (last (balanceData [mkTrade 1 (4 / 1000)] 1000)) = 1000"
  using running_balance_exact[of "[mkTrade 1 (4 / 1000)]" 1000]
  by (simp add: mkTrade_def round2_def)

text \<open>
  C3 as stated fails on the reported curve: with an initial balance of 1000 and one trade of
  0.004, the last reported balance is 1000, not 1000.004.
\<close>

theorem reported_balance_rounded:
  "balance (last (balanceData [mkTrade 1 (4 / 1000)] 1000)) \<noteq>
     1000 + sum_list (map net_profit [mkTrade 1 (4 / 1000)])"
  by (simp add: balanceData_def balance_pass_def sortByTime_def balance_step_def
      mkTrade_def round2_def)

text \<open>
  C4. The claim asks for a drawdown of 0 whenever the running peak is not positive.
  TradingReport divides by the peak without the test that ChartPanel makes: from an initial
  balance of 0, one losing trade of 10 gives the drawdown \<open>10 / 0 * 100\<close>, and the
  maximal drawdown is \<open>Infinity\<close>.
\<close>

theorem drawdown_divides_by_zero_peak:
  "maxDrawdown [mkTrade 1 (-10)] 0 = PInf"
  by (simp add: maxDrawdown_def sortByTime_def dd_step_def dd_of_def mkTrade_def js_gt_def)

lemma drawdown_sign_inverted: "dd_of (-100) (-150) = Fin (-50)"
  by (simp add: dd_of_def fl_mid)

lemma dd_step_ok: "dd_ok (maxDD s) \<Longrightarrow> dd_ok (maxDD (dd_step t s))"
  by (cases "maxDD s"; cases "dd_of (if peak s < runningBalance s + net_profit t
        then runningBalance s + net_profit t else peak s) (runningBalance s + net_profit t)")
     (auto simp: dd_step_def Let_def dd_ok_def js_gt_def)

lemma dd_fold_ok: "dd_ok (maxDD s) \<Longrightarrow> dd_ok (maxDD (fold dd_step ts s))"
  by (induction ts arbitrary: s) (simp_all add: dd_step_ok)

lemma maxDrawdown_nonneg: "js_ge (maxDrawdown trades initialBalance) (Fin 0)"
proof -
  have "dd_ok (maxDD (fold dd_step (sortByTime trades)
      \<lparr> runningBalance = initialBalance, peak = initialBalance, maxDD = Fin 0 \<rparr>))"
    by (rule dd_fold_ok) (simp add: dd_ok_def)
  then show ?thesis by (simp add: maxDrawdown_def js_ge_def dd_ok_def)
qed

lemma dd_of_same: "\<not> js_gt (dd_of p p) (Fin 0)"
  by (simp add: dd_of_def js_gt_def fl_zero)

lemma dd_fold_nondecreasing:
  "list_all (\<lambda>t. net_profit t \<ge> 0) ts \<Longrightarrow> peak s = runningBalance s \<Longrightarrow>
   maxDD s = Fin 0 \<Longrightarrow> maxDD (fold dd_step ts s) = Fin 0"
proof (induction ts arbitrary: s)
  case Nil
  then show ?case by simp
next
  case (Cons t ts)
  let ?s = "dd_step t s"
  have p: "peak ?s = runningBalance ?s" using Cons.prems by (auto simp: dd_step_def Let_def)
  have m: "maxDD ?s = Fin 0" using Cons.prems dd_of_same[of "runningBalance s + net_profit t"]
    by (auto simp: dd_step_def Let_def)
  from Cons.prems have "list_all (\<lambda>t. net_profit t \<ge> 0) ts" by simp
  from Cons.IH[OF this p m] show ?case by simp
qed

lemma maxDrawdown_nondecreasing:
  "list_all (\<lambda>t. net_profit t \<ge> 0) trades \<Longrightarrow> maxDrawdown trades initialBalance = Fin 0"
proof -
  assume a: "list_all (\<lambda>t. net_profit t \<ge> 0) trades"
  have "set (sortByTime trades) = set trades" by (simp add: sortByTime_def)
  with a have "list_all (\<lambda>t. net_profit t \<ge> 0) (sortByTime trades)"
    by (simp add: list_all_iff)
  from dd_fold_nondecreasing[OF this] show ?thesis by (simp add: maxDrawdown_def)
qed

lemma chartDrawdown_guarded:
  "(peakBalance \<le> 0 \<longrightarrow> chartDrawdown peakBalance bal = 0) \<and>
   (bal \<le> peakBalance \<longrightarrow> 0 \<le> chartDrawdown peakBalance bal)"
  by (simp add: chartDrawdown_def)

section \<open>RiskModel: profit factor and Kelly percentage\<close>

lemmas rm_defs = tradeReturns_def avgReturnPct_def variance_def stdDevPct_def winReturns_def
  lossReturns_def avgWinPct_def avgLossPct_def winRate_def riskRewardRatio_def
  expectancyPct_def kellyPct_def kellyHalf_def totalWins_def totalLosses_def profitFactor_def
  breakEvenWinRate_def edge_def count_def js_sum_def js_gt_def js_ge_def js_sub_def

text \<open>
  C2. The claim asks for the ratio of gross profit to the magnitude of gross loss whenever
  the gross loss is not zero, for a sentinel exactly when there is a gross profit and no
  gross loss, and never for \<open>NaN\<close>. RiskModel computes its profit factor from the
  percentage returns on the initial balance and guards the division by returning 0: one
  winning trade and no loss give 0, where the value that the dashboard's displays test for
  this case is 999. With an initial balance of 0, a win of 10 and a loss of 10 give
  \<open>NaN\<close>. With a negative initial balance the returns change sign: a gross profit of
  20 against a gross loss of 10 gives one half, the inverse of the ratio 2.
\<close>

theorem profit_factor_without_sentinel:
  "grossLoss [mkTrade 1 100] = 0 \<and> 0 < grossProfit [mkTrade 1 100] \<and>
   profitFactor [mkTrade 1 100] 1000 = Fin 0 \<and>
   profitFactor [mkTrade 1 10, mkTrade 2 (-10)] 0 = NaN \<and>
   grossProfit [mkTrade 1 20, mkTrade 2 (-10)] / \<bar>grossLoss [mkTrade 1 20, mkTrade 2 (-10)]\<bar> = 2 \<and>
   profitFactor [mkTrade 1 20, mkTrade 2 (-10)] (- 1000) = Fin (1 / 2)"
  by (simp add: rm_defs mkTrade_def grossLoss_def grossProfit_def fl_mid fl_zero)

text \<open>The displays of the statistics print the infinity sign from 999 on.\<close>

lemma infinity_sign_from_999: "displaysInfinity (Fin 999) \<and> \<not> displaysInfinity (Fin 998)"
  by (simp add: displaysInfinity_def js_ge_def)

text \<open>
  C5. The claim asks for a Kelly percentage of 0 whenever the risk-reward ratio is not
  positive. The code tests the average loss instead of the ratio: one losing trade and no
  win give a ratio of 0 and a positive average loss, the division by the ratio is made, and
  the Kelly percentage is \<open>-Infinity\<close>.
\<close>

theorem kelly_all_losses:
  "riskRewardRatio [mkTrade 1 (-10)] 1000 = Fin 0 \<and> kellyPct [mkTrade 1 (-10)] 1000 = NInf"
  by (simp add: rm_defs mkTrade_def fl_mid fl_zero)

section \<open>RiskModel: the drawdown risk table\<close>










text \<open>Between these two ends the probability is positive in exact arithmetic and can
  still be reported as 0: with two winners and one zero-profit trade the loss rate is one
  third, and its power 999 is below the smallest positive double.\<close>

lemma probability_underflows:
  "probability [mkTrade 1 10, mkTrade 2 10, mkTrade 3 0] 1000 (Fin 999) = Fin 0"
proof -
  have w: "winRate [mkTrade 1 10, mkTrade 2 10, mkTrade 3 0] 1000 = Fin (200 / 3)"
    by (simp add: rm_defs mkTrade_def fl_mid fl_zero)
  have "fl (((1::real) / 3) ^ 999) = Fin 0" using third_power_tiny by (intro fl_tiny) simp_all
  then show ?thesis
    by (simp add: probability_def w js_sub_def fl_mid fl_zero js_pow_def js_gt_def
        real_pow_def is_integer_def)
qed

text \<open>With a positive average loss the table is the usual one: two wins of 100 and a loss
  of 1500 on a balance of 10000.\<close>

lemma table_example:
  "drawdownRiskTable tableTrades 10000 =
     Some [(10, Fin 1, Fin (100 / 3)), (20, Fin 2, Fin (100 / 9)), (30, Fin 2, Fin (100 / 9)),
           (50, Fin 4, Fin (100 / 81))]"
proof -
  have tr: "tradeReturns tableTrades 10000 = [Fin 1, Fin 1, Fin (- 15)]"
    by (simp add: tradeReturns_def tableTrades_def mkTrade_def fl_mid)
  have wr: "winReturns tableTrades 10000 = [Fin 1, Fin 1]"
    "lossReturns tableTrades 10000 = [Fin (- 15)]"
    by (simp_all add: winReturns_def lossReturns_def tr js_gt_def)
  have al: "avgLossPct tableTrades 10000 = Fin 15"
    by (simp add: avgLossPct_def wr js_sum_def count_def fl_mid)
  have len: "length tableTrades = 3" by (simp add: tableTrades_def)
  have ne: "tableTrades \<noteq> []" by (simp add: tableTrades_def)
  have w: "winRate tableTrades 10000 = Fin (200 / 3)"
    by (simp add: winRate_def wr count_def len fl_mid)
  have q: "js_sub (Fin 1) (js_div (winRate tableTrades 10000) (Fin 100)) = Fin (1 / 3)"
    by (simp add: w js_sub_def fl_mid)
  have c: "consecutiveLosses_levels tableTrades 10000
      = [(10, Fin 1), (20, Fin 2), (30, Fin 2), (50, Fin 4)]"
    by (simp add: consecutiveLosses_levels_def consecutiveLosses_at_def drawdownLevels_def al
        fl_mid)
  have p: "probability tableTrades 10000 (Fin 1) = Fin (100 / 3)"
    "probability tableTrades 10000 (Fin 2) = Fin (100 / 9)"
    "probability tableTrades 10000 (Fin 4) = Fin (100 / 81)"
    by (simp_all add: probability_def q js_pow_def real_pow_def is_integer_def power_divide
        fl_mid)
  show ?thesis using ne by (simp add: drawdownRiskTable_def c p)
qed

section \<open>RiskModel: the recommended risk\<close>

lemma js_div_NaN: "js_div k (Fin d) = NaN \<longleftrightarrow> k = NaN \<or> (k = Fin 0 \<and> d = 0)"
  by (cases k) (auto simp: fl_def)

lemma js_min_NaN: "js_min a b = NaN \<longleftrightarrow> a = NaN \<or> b = NaN"
  by (cases a; cases b) (auto simp: js_min_def)

lemma js_min_le_right: "js_min a (Fin c) \<noteq> NaN \<Longrightarrow> js_le (js_min a (Fin c)) (Fin c)"
  by (cases a) (auto simp: js_min_def)

lemma js_min_le_left: "js_min (Fin c) a \<noteq> NaN \<Longrightarrow> js_le (js_min (Fin c) a) (Fin c)"
  by (cases a) (auto simp: js_min_def)

lemma js_le_trans_Fin: "js_le x (Fin c) \<Longrightarrow> c \<le> d \<Longrightarrow> js_le x (Fin d)"
  by (cases x) auto

text \<open>Every branch of the tiering takes a minimum with a constant, or is a constant: the
  recommendation is at most 5 whenever it is a number, and it is a number unless the half
  Kelly is \<open>NaN\<close> and the score is 30 or more.\<close>

lemma recommended_risk_cap:
  "(recommendedPct trades ib = NaN \<longleftrightarrow>
      kellyHalf trades ib = NaN \<and> 30 \<le> riskScore trades ib) \<and>
   (recommendedPct trades ib \<noteq> NaN \<longrightarrow> js_le (recommendedPct trades ib) (Fin 5))"
proof -
  let ?k = "kellyHalf trades ib" and ?s = "riskScore trades ib"
  consider "75 \<le> ?s" | "50 \<le> ?s" "?s < 75" | "30 \<le> ?s" "?s < 50" | "?s < 30"
    by linarith
  then show ?thesis
  proof cases
    case 1
    then have r: "recommendedPct trades ib = js_min ?k (Fin 5)"
      by (simp add: recommendedPct_def)
    show ?thesis unfolding r using 1 js_min_le_right[of ?k 5]
      by (auto simp: js_min_NaN)
  next
    case 2
    then have r: "recommendedPct trades ib = js_min (js_div ?k (Fin 2)) (Fin 3)"
      by (simp add: recommendedPct_def)
    show ?thesis unfolding r
      using 2 js_min_le_right[of "js_div ?k (Fin 2)" 3]
        js_le_trans_Fin[of "js_min (js_div ?k (Fin 2)) (Fin 3)" 3 5]
      by (auto simp: js_min_NaN js_div_NaN)
  next
    case 3
    then have r: "recommendedPct trades ib = js_min (Fin 1) (js_div ?k (Fin 4))"
      by (simp add: recommendedPct_def)
    show ?thesis unfolding r
      using 3 js_min_le_left[of 1 "js_div ?k (Fin 4)"]
        js_le_trans_Fin[of "js_min (Fin 1) (js_div ?k (Fin 4))" 1 5]
      by (auto simp: js_min_NaN js_div_NaN)
  next
    case 4
    then show ?thesis by (simp add: recommendedPct_def)
  qed
qed

text \<open>The cap is reached: a half Kelly of 16.67 with a score of 100 is cut to 5.\<close>

lemma capTrades_metrics:
  "kellyHalf capTrades 1000 = Fin (50 / 3)"
  "edge capTrades 1000 = Fin 25"
  "winRate capTrades 1000 = Fin 50"
  "profitFactor capTrades 1000 = Fin 3"
  "expectancyPct capTrades 1000 = Fin 1"
  "stdDevPct capTrades 1000 = Fin 2"
  "avgLossPct capTrades 1000 = Fin 1"
proof -
  have tr: "tradeReturns capTrades 1000 = [Fin 3, Fin (- 1)]"
    by (simp add: tradeReturns_def capTrades_def mkTrade_def fl_mid)
  have wr: "winReturns capTrades 1000 = [Fin 3]" "lossReturns capTrades 1000 = [Fin (- 1)]"
    by (simp_all add: winReturns_def lossReturns_def tr js_gt_def)
  have aw: "avgWinPct capTrades 1000 = Fin 3"
    by (simp add: avgWinPct_def wr js_sum_def count_def fl_mid)
  show al: "avgLossPct capTrades 1000 = Fin 1"
    by (simp add: avgLossPct_def wr js_sum_def count_def fl_mid)
  have len: "length capTrades = 2" by (simp add: capTrades_def)
  show w: "winRate capTrades 1000 = Fin 50"
    by (simp add: winRate_def wr count_def len fl_mid)
  have rr: "riskRewardRatio capTrades 1000 = Fin 3"
    by (simp add: riskRewardRatio_def aw al js_gt_def fl_mid)
  show "expectancyPct capTrades 1000 = Fin 1"
    by (simp add: expectancyPct_def aw al w js_sub_def fl_mid)
  have "kellyPct capTrades 1000 = Fin (100 / 3)"
    by (simp add: kellyPct_def al w rr js_gt_def js_sub_def fl_mid)
  then show "kellyHalf capTrades 1000 = Fin (50 / 3)"
    by (simp add: kellyHalf_def fl_mid)
  show "profitFactor capTrades 1000 = Fin 3"
    by (simp add: profitFactor_def totalWins_def totalLosses_def wr js_sum_def js_gt_def fl_mid)
  have "breakEvenWinRate capTrades 1000 = Fin 25"
    by (simp add: breakEvenWinRate_def aw al js_gt_def fl_mid)
  then show "edge capTrades 1000 = Fin 25"
    by (simp add: edge_def w js_sub_def fl_mid)
  have av: "avgReturnPct capTrades 1000 = Fin 1"
    by (simp add: avgReturnPct_def tr js_sum_def count_def fl_mid)
  have "variance capTrades 1000 = Fin 4"
    by (simp add: variance_def tr av count_def js_sub_def js_pow_def real_pow_def
        is_integer_def fl_mid)
  then show "stdDevPct capTrades 1000 = Fin 2"
    by (simp add: stdDevPct_def)
qed

lemma capTrades_recommended:
  "riskScore capTrades 1000 = 100 \<and> recommendedPct capTrades 1000 = Fin 5"
proof -
  have s: "riskScore capTrades 1000 = 100"
    by (simp add: riskScore_def Let_def capTrades_metrics js_gt_def js_ge_def fl_mid)
  then show ?thesis
    by (simp add: recommendedPct_def capTrades_metrics js_min_def)
qed



section \<open>RiskOfRuin: the probabilities across the levels\<close>

lemma log_ratio_bounds:
  "3 < ln (1 / 10) / ln (1 / 2 :: real) \<and> ln (1 / 10) / ln (1 / 2 :: real) \<le> 4"
proof -
  have e: "ln (1 / 10) / ln (1 / 2 :: real) = ln 10 / ln 2"
    by (simp add: ln_div)
  have l2: "0 < ln (2::real)" by simp
  have "ln (8::real) < ln 10" by (subst ln_less_cancel_iff) simp_all
  moreover have "ln (8::real) = 3 * ln 2" using ln_realpow[of 2 3] by simp
  ultimately have lo: "3 < ln 10 / ln (2::real)" using l2 by (simp add: field_simps)
  have "ln (10::real) \<le> ln 16" by (subst ln_le_cancel_iff) simp_all
  moreover have "ln (16::real) = 4 * ln 2" using ln_realpow[of 2 4] by simp
  ultimately have hi: "ln 10 / ln (2::real) \<le> 4" using l2 by (simp add: field_simps)
  show ?thesis unfolding e using lo hi by simp
qed

lemma ceil_log_ratio: "\<lceil>ln (1 / 10) / ln (1 / 2 :: real)\<rceil> = 4"
  using log_ratio_bounds by (intro ceiling_unique) simp_all

lemma fl_log_ratio:
  "fl (ln (1 / 10) / ln (1 / 2 :: real)) = Fin (ln (1 / 10) / ln (1 / 2 :: real))"
proof -
  define r :: real where "r = ln (1 / 10) / ln (1 / 2)"
  have b: "3 < r" "r \<le> 4" using log_ratio_bounds by (simp_all add: r_def)
  then have "1 / 10 ^ 30 \<le> \<bar>r\<bar>" "\<bar>r\<bar> \<le> 10 ^ 30" by simp_all
  then have "fl r = Fin r" by (rule fl_mid)
  then show ?thesis by (simp only: r_def)
qed

lemma ruin_rates:
  "winRate_ror ruinTrades = 2 / 3 \<and> lossPerTradeAvg ruinTrades = 1 / 2"
  by (simp add: winRate_ror_def lossPerTradeAvg_def avgLoss_def ruinTrades_def mkTrade_def)

lemma ruin_losses_100: "consecutiveLosses_ror ruinTrades 100 = Fin 2"
proof -
  have "ln (1 / 2 :: real) < 0" by simp
  then show ?thesis
    by (simp add: consecutiveLosses_ror_def ruin_rates Let_def fl_mid)
qed

lemma ruin_losses_90: "consecutiveLosses_ror ruinTrades 90 = Fin 4"
proof -
  have n: "ln (1 / 2 :: real) \<noteq> 0" by simp
  have "js_div (js_log (Fin ((100 - 90) / 100))) (js_log (Fin (1 - 1 / 2)))
      = Fin (ln (1 / 10) / ln (1 / 2 :: real))"
    using n fl_log_ratio by simp
  then show ?thesis using ceil_log_ratio
    by (simp add: consecutiveLosses_ror_def ruin_rates Let_def)
qed

text \<open>
  C7. The claim asks for a probability that does not grow with the drawdown level.
  RiskOfRuin breaks it between the levels 90 and 100: the geometric estimate of the
  consecutive losses is infinite at 100, the linear estimate that replaces it is smaller than
  the geometric one at 90, and so the total loss comes out as more probable than a loss of
  90 percent. For two wins of 1 and one loss of 5000: 2 losses and 25 percent at level 100,
  4 losses and 6.25 percent at level 90.
\<close>

theorem ruin_probability_not_monotone:
  "probability_ror ruinTrades 100 = Fin 25 \<and> probability_ror ruinTrades 90 = Fin (25 / 4) \<and>
   \<not> js_le (probability_ror ruinTrades 100) (probability_ror ruinTrades 90)"
  by (simp add: probability_ror_def ruin_rates ruin_losses_100 ruin_losses_90 Let_def
      js_pow_def real_pow_def is_integer_def js_min_def js_max_def power_divide fl_mid)

section \<open>The clock and the random draws\<close>

lemma lower_xauusd: "toLowerCase ''XAUUSD'' = ''xauusd''"
  by code_simp

lemma clockTrade_pips: "estimatePips clockTrade = Fin 5"
  by (simp add: estimatePips_def clockTrade_def lower_xauusd fl_mid)

text \<open>The estimate of TradingReport for the same trade needs no draw.\<close>

lemma clockTrade_mae:
  "mae clockTrade 0 = Fin 0 \<and> mae clockTrade (1 / 2) = Fin (- (3 / 4)) \<and>
   maeMfeData_mae clockTrade = Fin (- 15)"
proof -
  have p: "0 < net_profit clockTrade" "net_profit clockTrade = 50"
    by (simp_all add: clockTrade_def)
  show ?thesis
    by (simp add: mae_def maeMfeData_mae_def clockTrade_pips p fl_mid fl_zero)
qed

lemma clock_starts:
  "today 5000 = 0" "today 172805000 = 172800000"
  "thisWeekStart 500 = - 259200000" "thisWeekStart 5000 = - 259200000"
  by (simp_all add: today_def thisWeekStart_def getDay_def dayMs_def Let_def)

lemma clock_counts:
  "periodTrades (periodToday 5000 [clockTrade]) = 1"
  "periodTrades (periodToday 172805000 [clockTrade]) = 0"
  "periodTrades (periodThisWeek 500 [clockTrade]) = 0"
  "periodTrades (periodThisWeek 5000 [clockTrade]) = 1"
  by (simp_all add: periodToday_def periodThisWeek_def periodRow_def calculatePeriod_def
      clock_starts lastWeekStart_def dayMs_def clockTrade_def Let_def)

text \<open>
  C9. The claim asks that the reading of the clock be supplied by the caller and that no
  statistic depend on randomness. \<open>periodsData\<close> reads the clock itself: for one trade
  at time 1000, the row of today counts the trade at the reading 5000 and not two days
  later, and the row of this week, whose window ends at the reading, counts it at the
  reading 5000 and not at the reading 500 of the same day. The MAE estimate of MAEMFEChart
  multiplies by a random draw: the same winning trade gives 0 with the draw 0 and
  \<open>-0.75\<close> with the draw one half. The trade list is the same throughout.
\<close>

theorem output_depends_on_clock_and_draw:
  "periodTrades (periodToday 5000 [clockTrade]) = 1 \<and>
   periodTrades (periodToday 172805000 [clockTrade]) = 0 \<and>
   periodTrades (periodThisWeek 500 [clockTrade]) = 0 \<and>
   periodTrades (periodThisWeek 5000 [clockTrade]) = 1 \<and>
   periodsData 5000 [clockTrade] \<noteq> periodsData 172805000 [clockTrade] \<and>
   periodsData 500 [clockTrade] \<noteq> periodsData 5000 [clockTrade] \<and>
   mae clockTrade 0 = Fin 0 \<and> mae clockTrade (1 / 2) = Fin (- (3 / 4))"
proof -
  have a: "periodsData 5000 [clockTrade] \<noteq> periodsData 172805000 [clockTrade]"
  proof
    assume "periodsData 5000 [clockTrade] = periodsData 172805000 [clockTrade]"
    then have "periodToday 5000 [clockTrade] = periodToday 172805000 [clockTrade]"
      by (simp add: periodsData_def)
    then have "periodTrades (periodToday 5000 [clockTrade])
        = periodTrades (periodToday 172805000 [clockTrade])"
      by (rule arg_cong)
    then show False by (simp only: clock_counts)
  qed
  have b: "periodsData 500 [clockTrade] \<noteq> periodsData 5000 [clockTrade]"
  proof
    assume "periodsData 500 [clockTrade] = periodsData 5000 [clockTrade]"
    then have "periodThisWeek 500 [clockTrade] = periodThisWeek 5000 [clockTrade]"
      by (simp add: periodsData_def)
    then have "periodTrades (periodThisWeek 500 [clockTrade])
        = periodTrades (periodThisWeek 5000 [clockTrade])"
      by (rule arg_cong)
    then show False by (simp only: clock_counts)
  qed
  from a b clock_counts clockTrade_mae show ?thesis by blast
qed

end
